theory Spec2Isabelle
  imports Complex_Main "HOL-Library.Multiset"
begin

section \<open>Responses\<close>

text \<open>
  Every handler ends in \<^verbatim>\<open>res.status(n).json(...)\<close>. A response is its HTTP status and,
  when \<^verbatim>\<open>success\<close> is true, the \<^verbatim>\<open>data\<close> it carries. The statuses the handlers use:
  400 validation failed, 401 unauthenticated, 403 forbidden, 404 not found, 409 conflict,
  and 200/201 on success.
\<close>

datatype 'a response = Success nat 'a | Failure nat

fun status_of :: "'a response \<Rightarrow> nat" where
  "status_of (Success n _) = n"
| "status_of (Failure n) = n"

section \<open>Token service (utils/auth.ts)\<close>

record JWTPayload =
  userId :: string
  email :: string
  role :: string

record UserTokenData =
  ut_id :: string
  ut_email :: string
  ut_role :: string

record TokenPair =
  accessToken :: string
  refreshToken :: string
  expiresIn :: nat

text \<open>
  The package \<^verbatim>\<open>jsonwebtoken\<close> is an external collaborator and is taken as a parameter:
  \<open>jwt_sign payload secret ttl clock\<close> is \<^verbatim>\<open>jwt.sign(payload, secret, {expiresIn: ttl})\<close>
  called at time \<open>clock\<close> (seconds), and \<open>jwt_verify token secret clock\<close> is
  \<^verbatim>\<open>jwt.verify(token, secret)\<close>, with \<open>None\<close> where the library throws (malformed token,
  bad signature, expired).
\<close>

record jwt_lib =
  jwt_sign :: "JWTPayload \<Rightarrow> string \<Rightarrow> nat \<Rightarrow> nat \<Rightarrow> string"
  jwt_verify :: "string \<Rightarrow> string \<Rightarrow> nat \<Rightarrow> JWTPayload option"

text \<open>
  \<^verbatim>\<open>process.env\<close> is a map from variable names to strings. \<^verbatim>\<open>a || b\<close> on an optional
  string yields \<open>b\<close> when \<open>a\<close> is undefined or the empty string.
\<close>

type_synonym process_env = "string \<rightharpoonup> string"

definition or_default :: "string option \<Rightarrow> string \<Rightarrow> string" where
  "or_default v d = (case v of None \<Rightarrow> d | Some s \<Rightarrow> if s = [] then d else s)"

definition JWT_SECRET :: "process_env \<Rightarrow> string" where
  "JWT_SECRET env = or_default (env ''JWT_SECRET_KEY'') ''your-secret-key''"

definition JWT_REFRESH_SECRET :: "process_env \<Rightarrow> string" where
  "JWT_REFRESH_SECRET env = or_default (env ''JWT_SECRET_KEY'') ''your-refresh-secret-key''"

definition token_payload :: "UserTokenData \<Rightarrow> JWTPayload" where
  "token_payload user = \<lparr> userId = ut_id user, email = ut_email user, role = ut_role user \<rparr>"

definition generateAccessToken :: "jwt_lib \<Rightarrow> process_env \<Rightarrow> nat \<Rightarrow> UserTokenData \<Rightarrow> string" where
  "generateAccessToken lib env clock user =
     jwt_sign lib (token_payload user) (JWT_SECRET env) (15 * 60) clock"

definition generateRefreshToken :: "jwt_lib \<Rightarrow> process_env \<Rightarrow> nat \<Rightarrow> UserTokenData \<Rightarrow> string" where
  "generateRefreshToken lib env clock user =
     jwt_sign lib (token_payload user) (JWT_REFRESH_SECRET env) (7 * 24 * 60 * 60) clock"

definition generateTokenPair :: "jwt_lib \<Rightarrow> process_env \<Rightarrow> nat \<Rightarrow> UserTokenData \<Rightarrow> TokenPair" where
  "generateTokenPair lib env clock user =
     \<lparr> accessToken = generateAccessToken lib env clock user,
       refreshToken = generateRefreshToken lib env clock user,
       expiresIn = 15 * 60 \<rparr>"

definition verifyAccessToken :: "jwt_lib \<Rightarrow> process_env \<Rightarrow> nat \<Rightarrow> string \<Rightarrow> JWTPayload option" where
  "verifyAccessToken lib env clock token = jwt_verify lib token (JWT_SECRET env) clock"

definition verifyRefreshToken :: "jwt_lib \<Rightarrow> process_env \<Rightarrow> nat \<Rightarrow> string \<Rightarrow> JWTPayload option" where
  "verifyRefreshToken lib env clock token = jwt_verify lib token (JWT_REFRESH_SECRET env) clock"

section \<open>JavaScript numbers\<close>

text \<open>
  A number is a binary64 value. A finite one is modelled by the rational it denotes
  (negative zero is not told apart from zero); \<open>None\<close> stands for the values that are not
  finite: \<^verbatim>\<open>Infinity\<close>, \<^verbatim>\<open>-Infinity\<close> and \<^verbatim>\<open>NaN\<close>. The operations below are the ones the
  handlers use, with a finite right operand (a rating, a count, the literal 10); none of
  them turns a value that is not finite back into a finite one.
\<close>

type_synonym number = "rat option"

text \<open>The number of binary digits of a positive integer.\<close>

function bit_length :: "int \<Rightarrow> int" where
  "bit_length n = (if n \<le> 0 then 0 else 1 + bit_length (n div 2))"
  by pat_completeness auto
termination
  by (relation "measure nat") auto

declare bit_length.simps [simp del]

text \<open>For \<open>0 < x\<close>, the exponent \<open>e\<close> with \<open>2^e \<le> x < 2^(e+1)\<close>.\<close>

definition ilog2 :: "rat \<Rightarrow> int" where
  "ilog2 x = (if 1 \<le> x then bit_length \<lfloor>x\<rfloor> - 1 else - bit_length (\<lceil>1 / x\<rceil> - 1))"

definition pow2 :: "int \<Rightarrow> rat" where
  "pow2 e = (if 0 \<le> e then 2 ^ nat e else 1 / 2 ^ nat (- e))"

definition round_half_even :: "rat \<Rightarrow> int" where
  "round_half_even y =
     (let f = \<lfloor>y\<rfloor>; r = y - of_int f
      in if r < 1 / 2 then f
         else if 1 / 2 < r then f + 1
         else if even f then f else f + 1)"

text \<open>
  Rounding of a rational to binary64, to nearest and a tie to the even significand: the
  significand has 53 bits, the spacing of the values does not go below \<open>2^-1074\<close>
  (subnormal numbers), and a result that reaches \<open>2^1024\<close> overflows to \<^verbatim>\<open>Infinity\<close>.
\<close>

definition binary64 :: "rat \<Rightarrow> number" where
  "binary64 x =
     (if x = 0 then Some 0
      else let q = pow2 (max (ilog2 \<bar>x\<bar> - 52) (- 1074));
               v = of_int (round_half_even (\<bar>x\<bar> / q)) * q
           in if 2 ^ 1024 \<le> v then None else Some (sgn x * v))"

text \<open>\<^verbatim>\<open>a + b\<close>, \<^verbatim>\<open>a * b\<close> and \<^verbatim>\<open>a / b\<close>: the exact result, rounded. \<^verbatim>\<open>a / 0\<close> is not finite.\<close>

definition js_add :: "number \<Rightarrow> rat \<Rightarrow> number" where
  "js_add a b = (case a of None \<Rightarrow> None | Some x \<Rightarrow> binary64 (x + b))"

definition js_mul :: "number \<Rightarrow> rat \<Rightarrow> number" where
  "js_mul a b = (case a of None \<Rightarrow> None | Some x \<Rightarrow> binary64 (x * b))"

definition js_div :: "number \<Rightarrow> rat \<Rightarrow> number" where
  "js_div a b = (case a of None \<Rightarrow> None | Some x \<Rightarrow> if b = 0 then None else binary64 (x / b))"

text \<open>
  \<^verbatim>\<open>Math.round\<close>: the nearest integer, a tie towards \<open>+\<infinity>\<close>; it is exact, and leaves a value
  that is not finite as it is.
\<close>

definition Math_round :: "number \<Rightarrow> number" where
  "Math_round a = (case a of None \<Rightarrow> None | Some x \<Rightarrow> Some (of_int \<lfloor>x + 1 / 2\<rfloor>))"

section \<open>Stored entities\<close>

datatype RequestStatus = pending | accepted | declined | completed | cancelled

record User =
  u_id :: string
  u_email :: string
  u_role :: string
  u_is_active :: bool
  u_rating :: number

record Service =
  s_id :: string
  s_provider_id :: string
  s_is_active :: bool

record ServiceRequest =
  r_id :: string
  r_service_id :: string
  r_customer_id :: string
  r_provider_id :: string
  r_status :: RequestStatus
  r_message :: "string option"
  r_requested_date :: "int option"
  r_estimated_duration :: "rat option"

record Feedback =
  f_id :: string
  f_service_request_id :: string
  f_customer_id :: string
  f_provider_id :: string
  f_rating :: rat
  f_comment :: "string option"
  f_is_public :: bool
  f_created_at :: nat

text \<open>
  A rating of a Feedback row is a finite number; a requested date is the time value of a
  \<^verbatim>\<open>Date\<close>, in milliseconds, or null.

  The store behind \<^verbatim>\<open>prisma\<close>: one list of rows per table, in insertion order.
  \<^verbatim>\<open>findUnique\<close> and \<^verbatim>\<open>findFirst\<close> return the first row that satisfies the filter,
  \<^verbatim>\<open>findMany\<close> all of them, \<^verbatim>\<open>create\<close> appends a row.
\<close>

record db =
  users :: "User list"
  services :: "Service list"
  serviceRequests :: "ServiceRequest list"
  feedbacks :: "Feedback list"

section \<open>Authorization gate (middleware/auth.ts)\<close>

text \<open>\<^verbatim>\<open>s.split(sep)\<close> for a one-character separator: never empty, \<^verbatim>\<open>''.split(' ')\<close> is \<^verbatim>\<open>['']\<close>.\<close>

fun js_split :: "char \<Rightarrow> string \<Rightarrow> string list" where
  "js_split sep [] = [[]]"
| "js_split sep (c # cs) =
     (if c = sep then [] # js_split sep cs
      else (case js_split sep cs of [] \<Rightarrow> [[c]] | w # ws \<Rightarrow> (c # w) # ws))"

text \<open>\<^verbatim>\<open>xs[i]\<close> on a JavaScript array: \<open>None\<close> is \<^verbatim>\<open>undefined\<close>.\<close>

definition js_index :: "'a list \<Rightarrow> nat \<Rightarrow> 'a option" where
  "js_index xs i = (if i < length xs then Some (xs ! i) else None)"

text \<open>
  \<^verbatim>\<open>authHeader && authHeader.split(' ')[1]\<close>: an undefined header stays undefined, an empty
  header stays the empty string, otherwise the second space-separated field.
\<close>

definition bearer_token :: "string option \<Rightarrow> string option" where
  "bearer_token authHeader =
     (case authHeader of
        None \<Rightarrow> None
      | Some h \<Rightarrow> if h = [] then Some [] else js_index (js_split CHR '' '' h) 1)"

text \<open>
  The middleware either answers itself (\<open>Rejected n\<close>) or sets \<^verbatim>\<open>req.user\<close> and calls
  \<^verbatim>\<open>next()\<close> (\<open>Next payload\<close>). \<^verbatim>\<open>!token\<close> holds for undefined and for the empty
  string. \<^verbatim>\<open>findUnique\<close> on the primary key is the first row with that id.
\<close>

datatype gate = Rejected nat | Next JWTPayload

definition authenticateToken ::
  "jwt_lib \<Rightarrow> process_env \<Rightarrow> nat \<Rightarrow> db \<Rightarrow> string option \<Rightarrow> gate" where
  "authenticateToken lib env clock d authHeader =
     (case bearer_token authHeader of
        None \<Rightarrow> Rejected 401
      | Some token \<Rightarrow>
          if token = [] then Rejected 401
          else (case verifyAccessToken lib env clock token of
                  None \<Rightarrow> Rejected 401
                | Some payload \<Rightarrow>
                    (case find (\<lambda>u. u_id u = userId payload) (users d) of
                       None \<Rightarrow> Rejected 401
                     | Some user \<Rightarrow>
                         if \<not> u_is_active user then Rejected 401 else Next payload)))"

definition requireRole :: "string list \<Rightarrow> JWTPayload option \<Rightarrow> gate" where
  "requireRole allowedRoles req_user =
     (case req_user of
        None \<Rightarrow> Rejected 401
      | Some user \<Rightarrow> if role user \<notin> set allowedRoles then Rejected 403 else Next user)"

text \<open>
  A protected route \<^verbatim>\<open>router.x(path, authenticateToken, handler)\<close>: the handler runs only
  when the gate calls \<^verbatim>\<open>next()\<close>, on the payload the gate stored in \<^verbatim>\<open>req.user\<close>.
\<close>

definition protected ::
  "jwt_lib \<Rightarrow> process_env \<Rightarrow> nat \<Rightarrow> db \<Rightarrow> string option \<Rightarrow> (JWTPayload \<Rightarrow> 'a response \<times> db)
     \<Rightarrow> 'a response \<times> db" where
  "protected lib env clock d authHeader handler =
     (case authenticateToken lib env clock d authHeader of
        Rejected n \<Rightarrow> (Failure n, d)
      | Next payload \<Rightarrow> handler payload)"

section \<open>Request bodies and their zod schemas\<close>

text \<open>
  A request body is a JSON object, given by the values of the properties that the schema
  reads, as \<^verbatim>\<open>express.json()\<close> has parsed them; \<open>JUndefined\<close> is a property that is
  absent, and \<open>JNum x\<close> is the finite number with the value \<open>x\<close>. A schema returns \<open>None\<close> where \<^verbatim>\<open>parse\<close> throws a
  ZodError, which every handler answers with 400.
\<close>

datatype json =
    JUndefined
  | JNull
  | JBool bool
  | JNum rat
  | JStr string
  | JArr "json list"
  | JObj "(string \<times> json) list"

text \<open>\<^verbatim>\<open>z.string().optional()\<close>: absent or a string; the outer \<open>None\<close> is a ZodError.\<close>

fun z_string_optional :: "json \<Rightarrow> string option option" where
  "z_string_optional JUndefined = Some None"
| "z_string_optional (JStr s) = Some (Some s)"
| "z_string_optional _ = None"

text \<open>\<^verbatim>\<open>z.string().min(1, ...)\<close>\<close>

fun z_string_min1 :: "json \<Rightarrow> string option" where
  "z_string_min1 (JStr s) = (if 1 \<le> length s then Some s else None)"
| "z_string_min1 _ = None"

text \<open>\<^verbatim>\<open>z.number().positive().optional()\<close>\<close>

fun z_number_positive_optional :: "json \<Rightarrow> rat option option" where
  "z_number_positive_optional JUndefined = Some None"
| "z_number_positive_optional (JNum x) = (if 0 < x then Some (Some x) else None)"
| "z_number_positive_optional _ = None"

record create_request_body =
  cb_service_id :: json
  cb_message :: json
  cb_requested_date :: json
  cb_estimated_duration :: json

record create_request_data =
  service_id :: string
  message :: "string option"
  requested_date :: "string option"
  estimated_duration :: "rat option"

definition createRequestSchema :: "create_request_body \<Rightarrow> create_request_data option" where
  "createRequestSchema body =
     (case z_string_min1 (cb_service_id body) of
        None \<Rightarrow> None
      | Some sid \<Rightarrow>
     (case z_string_optional (cb_message body) of
        None \<Rightarrow> None
      | Some msg \<Rightarrow>
     (case z_string_optional (cb_requested_date body) of
        None \<Rightarrow> None
      | Some date \<Rightarrow>
     (case z_number_positive_optional (cb_estimated_duration body) of
        None \<Rightarrow> None
      | Some dur \<Rightarrow>
          Some \<lparr> service_id = sid, message = msg, requested_date = date,
                 estimated_duration = dur \<rparr>))))"

text \<open>\<^verbatim>\<open>z.enum(['pending', 'accepted', 'declined', 'completed', 'cancelled'])\<close> on \<^verbatim>\<open>body.status\<close>.\<close>

definition updateRequestStatusSchema :: "json \<Rightarrow> RequestStatus option" where
  "updateRequestStatusSchema status =
     (case status of
        JStr s \<Rightarrow>
          if s = ''pending'' then Some pending
          else if s = ''accepted'' then Some accepted
          else if s = ''declined'' then Some declined
          else if s = ''completed'' then Some completed
          else if s = ''cancelled'' then Some cancelled
          else None
      | _ \<Rightarrow> None)"

record feedback_body =
  fb_service_request_id :: json
  fb_rating :: json
  fb_comment :: json

record feedback_data =
  service_request_id :: string
  rating :: rat
  comment :: "string option"

text \<open>\<^verbatim>\<open>z.number().min(1).max(5, ...)\<close>\<close>

fun z_number_1_5 :: "json \<Rightarrow> rat option" where
  "z_number_1_5 (JNum x) = (if 1 \<le> x \<and> x \<le> 5 then Some x else None)"
| "z_number_1_5 _ = None"

definition submitFeedbackSchema :: "feedback_body \<Rightarrow> feedback_data option" where
  "submitFeedbackSchema body =
     (case z_string_min1 (fb_service_request_id body) of
        None \<Rightarrow> None
      | Some rid \<Rightarrow>
     (case z_number_1_5 (fb_rating body) of
        None \<Rightarrow> None
      | Some x \<Rightarrow>
     (case z_string_optional (fb_comment body) of
        None \<Rightarrow> None
      | Some c \<Rightarrow> Some \<lparr> service_request_id = rid, rating = x, comment = c \<rparr>)))"

section \<open>Request lifecycle (routes/services.ts)\<close>

text \<open>
  What the storage layer fills in on \<^verbatim>\<open>create\<close>: the primary key, the creation time and
  the column default of the visibility flag (the schema is not part of the sources).
\<close>

record generated =
  new_id :: string
  created_at :: nat
  is_public_default :: bool

text \<open>
  \<^verbatim>\<open>new Date(s)\<close> is a built-in of the language and is taken as a parameter:
  \<open>new_Date s\<close> is the time value of the date, and \<open>None\<close> for an \<^verbatim>\<open>Invalid Date\<close>.
  \<^verbatim>\<open>requested_date ? new Date(requested_date) : null\<close>: the empty string is falsy. The outer
  \<open>None\<close> is an \<^verbatim>\<open>Invalid Date\<close>.
\<close>

definition requested_date_value :: "(string \<Rightarrow> int option) \<Rightarrow> string option \<Rightarrow> int option option" where
  "requested_date_value new_Date requested =
     (case requested of
        None \<Rightarrow> Some None
      | Some s \<Rightarrow>
          if s = [] then Some None
          else (case new_Date s of None \<Rightarrow> None | Some t \<Rightarrow> Some (Some t)))"

text \<open>
  POST /requests, behind \<^verbatim>\<open>authenticateToken\<close> and \<^verbatim>\<open>requireRole(['customer'])\<close>;
  \<open>user\<close> is \<^verbatim>\<open>req.user\<close>. \<^verbatim>\<open>service.provider\<close> is the row that \<^verbatim>\<open>provider_id\<close> refers to,
  so \<^verbatim>\<open>service.provider.id\<close> is the service's \<^verbatim>\<open>provider_id\<close>. \<^verbatim>\<open>create\<close> does not take an
  \<^verbatim>\<open>Invalid Date\<close>: it throws, nothing is written, and the handler answers 500.
\<close>

definition create_request ::
  "(string \<Rightarrow> int option) \<Rightarrow> generated \<Rightarrow> db \<Rightarrow> JWTPayload \<Rightarrow> create_request_body
     \<Rightarrow> ServiceRequest response \<times> db" where
  "create_request new_Date gen d user body =
     (case createRequestSchema body of
        None \<Rightarrow> (Failure 400, d)
      | Some validatedData \<Rightarrow>
          let customerId = userId user in
          (case find (\<lambda>s. s_id s = service_id validatedData \<and> s_is_active s) (services d) of
             None \<Rightarrow> (Failure 404, d)
           | Some service \<Rightarrow>
               (case find (\<lambda>r. r_service_id r = service_id validatedData \<and>
                                r_customer_id r = customerId \<and>
                                r_status r \<in> {pending, accepted}) (serviceRequests d) of
                  Some existingRequest \<Rightarrow> (Failure 409, d)
                | None \<Rightarrow>
                    (case requested_date_value new_Date (requested_date validatedData) of
                       None \<Rightarrow> (Failure 500, d)
                     | Some date \<Rightarrow>
                         let request =
                               \<lparr> r_id = new_id gen,
                                 r_service_id = service_id validatedData,
                                 r_customer_id = customerId,
                                 r_provider_id = s_provider_id service,
                                 r_status = pending,
                                 r_message = message validatedData,
                                 r_requested_date = date,
                                 r_estimated_duration = estimated_duration validatedData \<rparr>
                         in (Success 201 request,
                             d\<lparr>serviceRequests := serviceRequests d @ [request]\<rparr>)))))"

definition POST_requests ::
  "(string \<Rightarrow> int option) \<Rightarrow> generated \<Rightarrow> db \<Rightarrow> JWTPayload \<Rightarrow> create_request_body
     \<Rightarrow> ServiceRequest response \<times> db" where
  "POST_requests new_Date gen d user body =
     (case requireRole [''customer''] (Some user) of
        Rejected n \<Rightarrow> (Failure n, d)
      | Next u \<Rightarrow> create_request new_Date gen d u body)"

text \<open>\<^verbatim>\<open>update({where: {id}, data})\<close>: the row with that primary key, the first one found.\<close>

fun update_request :: "string \<Rightarrow> (ServiceRequest \<Rightarrow> ServiceRequest) \<Rightarrow> ServiceRequest list
    \<Rightarrow> ServiceRequest list" where
  "update_request i f [] = []"
| "update_request i f (r # rs) = (if r_id r = i then f r # rs else r # update_request i f rs)"

text \<open>The permission check of PATCH /requests/:id, \<^verbatim>\<open>canUpdate\<close>.\<close>

definition canUpdate :: "string \<Rightarrow> string \<Rightarrow> ServiceRequest \<Rightarrow> RequestStatus \<Rightarrow> bool" where
  "canUpdate userRole uid request status =
     (if userRole = ''provider'' \<and> r_provider_id request = uid
      then status \<in> set [accepted, declined, completed]
      else if userRole = ''customer'' \<and> r_customer_id request = uid
      then status = cancelled \<and> r_status request = pending
      else False)"

text \<open>PATCH /requests/:id, behind \<^verbatim>\<open>authenticateToken\<close> only.\<close>

definition PATCH_requests ::
  "db \<Rightarrow> JWTPayload \<Rightarrow> string \<Rightarrow> json \<Rightarrow> ServiceRequest response \<times> db" where
  "PATCH_requests d user i body_status =
     (let uid = userId user; userRole = role user in
      case updateRequestStatusSchema body_status of
        None \<Rightarrow> (Failure 400, d)
      | Some status \<Rightarrow>
          (case find (\<lambda>r. r_id r = i) (serviceRequests d) of
             None \<Rightarrow> (Failure 404, d)
           | Some request \<Rightarrow>
               if \<not> canUpdate userRole uid request status then (Failure 403, d)
               else (Success 200 (request\<lparr>r_status := status\<rparr>),
                     d\<lparr>serviceRequests :=
                         update_request i (\<lambda>r. r\<lparr>r_status := status\<rparr>) (serviceRequests d)\<rparr>)))"

section \<open>Feedback and rating (routes/feedback.ts)\<close>

text \<open>\<^verbatim>\<open>xs.reduce((sum, f) => sum + f.rating, 0)\<close>\<close>

definition sum_ratings :: "Feedback list \<Rightarrow> number" where
  "sum_ratings xs = foldl (\<lambda>sum f. js_add sum (f_rating f)) (Some 0) xs"

text \<open>
  \<^verbatim>\<open>prisma.user.update({where: {id}, data})\<close>: \<open>None\<close> when no row has that id (the call
  throws, and the handler answers 500).
\<close>

fun update_user :: "string \<Rightarrow> (User \<Rightarrow> User) \<Rightarrow> User list \<Rightarrow> User list option" where
  "update_user i f [] = None"
| "update_user i f (u # us) =
     (if u_id u = i then Some (f u # us)
      else (case update_user i f us of None \<Rightarrow> None | Some us' \<Rightarrow> Some (u # us')))"

text \<open>
  POST /feedback, behind \<^verbatim>\<open>authenticateToken\<close> and \<^verbatim>\<open>requireRole(['customer'])\<close>. The new
  row is written before the rating is recomputed, and there is no transaction: when the
  update of the provider fails, the row stays. An array has fewer than \<open>2^32\<close> elements,
  so its length is a number without rounding.
\<close>

definition submit_feedback ::
  "generated \<Rightarrow> db \<Rightarrow> JWTPayload \<Rightarrow> feedback_body \<Rightarrow> Feedback response \<times> db" where
  "submit_feedback gen d user body =
     (case submitFeedbackSchema body of
        None \<Rightarrow> (Failure 400, d)
      | Some validatedData \<Rightarrow>
          let customerId = userId user in
          (case find (\<lambda>r. r_id r = service_request_id validatedData \<and>
                           r_customer_id r = customerId \<and>
                           r_status r = completed) (serviceRequests d) of
             None \<Rightarrow> (Failure 404, d)
           | Some serviceRequest \<Rightarrow>
               (case find (\<lambda>f. f_service_request_id f = service_request_id validatedData)
                          (feedbacks d) of
                  Some existingFeedback \<Rightarrow> (Failure 409, d)
                | None \<Rightarrow>
                    let feedback =
                          \<lparr> f_id = new_id gen,
                            f_service_request_id = service_request_id validatedData,
                            f_customer_id = customerId,
                            f_provider_id = r_provider_id serviceRequest,
                            f_rating = rating validatedData,
                            f_comment = comment validatedData,
                            f_is_public = is_public_default gen,
                            f_created_at = created_at gen \<rparr>;
                        d1 = d\<lparr>feedbacks := feedbacks d @ [feedback]\<rparr>;
                        providerFeedback =
                          filter (\<lambda>f. f_provider_id f = r_provider_id serviceRequest)
                                 (feedbacks d1);
                        averageRating =
                          js_div (sum_ratings providerFeedback)
                                 (of_nat (length providerFeedback))
                    in (case update_user (r_provider_id serviceRequest)
                               (\<lambda>u. u\<lparr>u_rating :=
                                         js_div (Math_round (js_mul averageRating 10)) 10\<rparr>)
                               (users d1) of
                          None \<Rightarrow> (Failure 500, d1)
                        | Some us \<Rightarrow> (Success 201 feedback, d1\<lparr>users := us\<rparr>)))))"

definition POST_feedback ::
  "generated \<Rightarrow> db \<Rightarrow> JWTPayload \<Rightarrow> feedback_body \<Rightarrow> Feedback response \<times> db" where
  "POST_feedback gen d user body =
     (case requireRole [''customer''] (Some user) of
        Rejected n \<Rightarrow> (Failure n, d)
      | Next u \<Rightarrow> submit_feedback gen d u body)"

text \<open>\<^verbatim>\<open>orderBy: { created_at: 'desc' }\<close>: insertion into a list kept newest first.\<close>

fun insert_desc :: "Feedback \<Rightarrow> Feedback list \<Rightarrow> Feedback list" where
  "insert_desc x [] = [x]"
| "insert_desc x (y # ys) =
     (if f_created_at y \<le> f_created_at x then x # y # ys else y # insert_desc x ys)"

definition order_by_created_at_desc :: "Feedback list \<Rightarrow> Feedback list" where
  "order_by_created_at_desc xs = foldr insert_desc xs []"

record provider_feedback =
  feedback :: "Feedback list"
  average_rating :: number
  total_reviews :: nat

text \<open>GET /feedback/provider/:id, a public route.\<close>

definition GET_feedback_provider :: "db \<Rightarrow> string \<Rightarrow> provider_feedback response" where
  "GET_feedback_provider d i =
     (case find (\<lambda>u. u_id u = i \<and> u_role u = ''provider'') (users d) of
        None \<Rightarrow> Failure 404
      | Some provider \<Rightarrow>
          let feedback =
                order_by_created_at_desc
                  (filter (\<lambda>f. f_provider_id f = i \<and> f_is_public f) (feedbacks d));
              totalReviews = length feedback;
              averageRating =
                (if totalReviews > 0 then js_div (sum_ratings feedback) (of_nat totalReviews)
                 else Some 0)
          in Success 200
               \<lparr> feedback = feedback,
                 average_rating = js_div (Math_round (js_mul averageRating 10)) 10,
                 total_reviews = totalReviews \<rparr>)"

text \<open>
  The spec's words for the aggregate, in the arithmetic of numbers: the arithmetic mean of
  a list of ratings, the sum taken from left to right and divided by the count, and
  "rounded to one decimal place", \<^verbatim>\<open>Math.round(x * 10) / 10\<close>.
\<close>

definition arithmetic_mean :: "rat list \<Rightarrow> number" where
  "arithmetic_mean xs = js_div (foldl js_add (Some 0) xs) (of_nat (length xs))"

definition round1 :: "number \<Rightarrow> number" where
  "round1 x = js_div (Math_round (js_mul x 10)) 10"

text \<open>At most one Feedback row per ServiceRequest: no request id occurs twice.\<close>

definition one_feedback_per_request :: "Feedback list \<Rightarrow> bool" where
  "one_feedback_per_request fs = distinct (map f_service_request_id fs)"

section \<open>Runs of the API\<close>

text \<open>
  The calls that write to the store of requests and feedback, each with the authenticated
  caller that the gate put into \<^verbatim>\<open>req.user\<close>, and the store after a sequence of them.
\<close>

datatype api_call =
    CreateRequest generated JWTPayload create_request_body
  | PatchRequest JWTPayload string json
  | SubmitFeedback generated JWTPayload feedback_body

fun api_step :: "(string \<Rightarrow> int option) \<Rightarrow> db \<Rightarrow> api_call \<Rightarrow> db" where
  "api_step new_Date d (CreateRequest gen user body) =
     snd (POST_requests new_Date gen d user body)"
| "api_step new_Date d (PatchRequest user i body_status) =
     snd (PATCH_requests d user i body_status)"
| "api_step new_Date d (SubmitFeedback gen user body) = snd (POST_feedback gen d user body)"

definition api_run :: "(string \<Rightarrow> int option) \<Rightarrow> db \<Rightarrow> api_call list \<Rightarrow> db" where
  "api_run new_Date d calls = foldl (api_step new_Date) d calls"

section \<open>Example data\<close>

text \<open>
  A customer, a provider, one active service of the provider, and the stores of a small
  scenario: the customer requests the service, the provider accepts and completes it, the
  customer rates it.
\<close>

definition alice :: JWTPayload where
  "alice = \<lparr> userId = ''c1'', email = ''alice@example.org'', role = ''customer'' \<rparr>"

definition bob :: JWTPayload where
  "bob = \<lparr> userId = ''p1'', email = ''bob@example.org'', role = ''provider'' \<rparr>"

definition alice_row :: User where
  "alice_row = \<lparr> u_id = ''c1'', u_email = ''alice@example.org'', u_role = ''customer'',
                 u_is_active = True, u_rating = Some 0 \<rparr>"

definition bob_row :: User where
  "bob_row = \<lparr> u_id = ''p1'', u_email = ''bob@example.org'', u_role = ''provider'',
               u_is_active = True, u_rating = Some 0 \<rparr>"

definition plumbing :: Service where
  "plumbing = \<lparr> s_id = ''s1'', s_provider_id = ''p1'', s_is_active = True \<rparr>"

definition db_empty :: db where
  "db_empty = \<lparr> users = [alice_row, bob_row], services = [plumbing],
                serviceRequests = [], feedbacks = [] \<rparr>"

definition request_row :: "string \<Rightarrow> RequestStatus \<Rightarrow> ServiceRequest" where
  "request_row i st =
     \<lparr> r_id = i, r_service_id = ''s1'', r_customer_id = ''c1'', r_provider_id = ''p1'',
       r_status = st, r_message = None, r_requested_date = None,
       r_estimated_duration = None \<rparr>"

definition db_with :: "RequestStatus \<Rightarrow> db" where
  "db_with st = db_empty\<lparr>serviceRequests := [request_row ''r1'' st]\<rparr>"

definition feedback_row :: "string \<Rightarrow> string \<Rightarrow> rat \<Rightarrow> bool \<Rightarrow> nat \<Rightarrow> Feedback" where
  "feedback_row i rid x pub t =
     \<lparr> f_id = i, f_service_request_id = rid, f_customer_id = ''c1'', f_provider_id = ''p1'',
       f_rating = x, f_comment = None, f_is_public = pub, f_created_at = t \<rparr>"

definition request_body :: "json \<Rightarrow> create_request_body" where
  "request_body date = \<lparr> cb_service_id = JStr ''s1'', cb_message = JUndefined,
                         cb_requested_date = date, cb_estimated_duration = JUndefined \<rparr>"

text \<open>
  A stand-in for the \<^verbatim>\<open>Date\<close> constructor: it parses the one date of the examples and
  takes every other string for invalid, as \<^verbatim>\<open>new Date('tomorrow')\<close> is.
\<close>

definition example_Date :: "string \<Rightarrow> int option" where
  "example_Date s = (if s = ''2026-11-02'' then Some 1793577600000 else None)"

definition rating_body :: "json \<Rightarrow> feedback_body" where
  "rating_body x = \<lparr> fb_service_request_id = JStr ''r1'', fb_rating = x,
                     fb_comment = JUndefined \<rparr>"

definition gen :: "string \<Rightarrow> nat \<Rightarrow> generated" where
  "gen i t = \<lparr> new_id = i, created_at = t, is_public_default = True \<rparr>"

text \<open>The store after the customer has rated the completed request with 4.\<close>

definition db_rated :: db where
  "db_rated = (db_with completed)\<lparr>users := [alice_row, bob_row\<lparr>u_rating := Some 4\<rparr>],
       feedbacks := [feedback_row ''f1'' ''r1'' 4 True 9]\<rparr>"

text \<open>The number 1.9: the binary64 value nearest to 19/10, a little below it.\<close>

definition one_point_nine :: rat where
  "one_point_nine = 4278419646001971 / 2251799813685248"

text \<open>
  The completed request, not yet rated, and three earlier ratings of the provider: 5, not
  public, then 1.9, then 1.
\<close>

definition db_history :: db where
  "db_history = (db_with completed)\<lparr>feedbacks :=
       [feedback_row ''f0'' ''r0'' 5 False 1,
        feedback_row ''f8'' ''r8'' one_point_nine True 2,
        feedback_row ''f9'' ''r9'' 1 True 3]\<rparr>"


text \<open>A stand-in for the token library that accepts the token \<^verbatim>\<open>tok\<close> as the customer's.\<close>

definition stub_jwt :: jwt_lib where
  "stub_jwt = \<lparr> jwt_sign = (\<lambda>payload secret ttl clock. ''tok''),
                jwt_verify = (\<lambda>token secret clock. if token = ''tok'' then Some alice else None) \<rparr>"

section \<open>Token service: the two secrets\<close>

lemma default_secrets_distinct: "JWT_SECRET Map.empty \<noteq> JWT_REFRESH_SECRET Map.empty"
  by (simp add: JWT_SECRET_def JWT_REFRESH_SECRET_def or_default_def)

text \<open>
  C1. The claim: the access and the refresh token of one identity verify to the same
  claims, and each is rejected by the other class's verification function, because the two
  classes are signed with distinct secrets. Both secrets are read from the one variable
  \<^verbatim>\<open>JWT_SECRET_KEY\<close>; only the fallbacks differ. With the variable set, here to
  \<^verbatim>\<open>s3cret\<close>, the two secrets are equal, and for every token library \<^verbatim>\<open>verifyRefreshToken\<close>
  answers on the access token what \<^verbatim>\<open>verifyAccessToken\<close> answers, and the other way round
  on the refresh token: a token that its own class accepts is accepted by the other class.
\<close>

theorem verifiers_coincide_when_key_set:
  "JWT_SECRET [''JWT_SECRET_KEY'' \<mapsto> ''s3cret''] = ''s3cret''
   \<and> JWT_REFRESH_SECRET [''JWT_SECRET_KEY'' \<mapsto> ''s3cret''] = ''s3cret''
   \<and> verifyRefreshToken lib [''JWT_SECRET_KEY'' \<mapsto> ''s3cret''] clock
         (accessToken (generateTokenPair lib [''JWT_SECRET_KEY'' \<mapsto> ''s3cret''] issued user))
       = verifyAccessToken lib [''JWT_SECRET_KEY'' \<mapsto> ''s3cret''] clock
         (accessToken (generateTokenPair lib [''JWT_SECRET_KEY'' \<mapsto> ''s3cret''] issued user))
   \<and> verifyAccessToken lib [''JWT_SECRET_KEY'' \<mapsto> ''s3cret''] clock
         (refreshToken (generateTokenPair lib [''JWT_SECRET_KEY'' \<mapsto> ''s3cret''] issued user))
       = verifyRefreshToken lib [''JWT_SECRET_KEY'' \<mapsto> ''s3cret''] clock
         (refreshToken (generateTokenPair lib [''JWT_SECRET_KEY'' \<mapsto> ''s3cret''] issued user))"
  by (simp add: JWT_SECRET_def JWT_REFRESH_SECRET_def or_default_def
      verifyAccessToken_def verifyRefreshToken_def)

section \<open>Authorization gate\<close>

lemma bearer_tok: "bearer_token (Some ''Bearer tok'') = Some ''tok''"
  by (simp add: bearer_token_def js_index_def)

text \<open>
  C6. A call is rejected with 401, and the protected handler is not run (the answer and
  the store do not depend on it), when the header carries no token, when
  \<^verbatim>\<open>verifyAccessToken\<close> returns null on it (malformed, expired or wrongly signed), or when
  the account of the token's \<^verbatim>\<open>userId\<close> is missing or not active.
\<close>

theorem authenticateToken_rejects:
  assumes "bearer_token authHeader = None \<or> bearer_token authHeader = Some []
     \<or> (\<exists>token. bearer_token authHeader = Some token \<and>
           verifyAccessToken lib env clock token = None)
     \<or> (\<exists>token payload. bearer_token authHeader = Some token \<and>
           verifyAccessToken lib env clock token = Some payload \<and>
           (find (\<lambda>u. u_id u = userId payload) (users d) = None \<or>
            (\<exists>user. find (\<lambda>u. u_id u = userId payload) (users d) = Some user \<and>
                    \<not> u_is_active user)))"
  shows "authenticateToken lib env clock d authHeader = Rejected 401
     \<and> protected lib env clock d authHeader handler = (Failure 401, d)"
proof -
  have "authenticateToken lib env clock d authHeader = Rejected 401"
    using assms by (auto simp: authenticateToken_def)
  then show ?thesis by (simp add: protected_def)
qed

text \<open>
  The customer's token is accepted while the account is active, and rejected, before the
  handler, once the account is deactivated.
\<close>

theorem authenticateToken_rejects_witness:
  "authenticateToken stub_jwt Map.empty 0
      ((db_with pending)\<lparr>users := [alice_row\<lparr>u_is_active := False\<rparr>, bob_row]\<rparr>)
      (Some ''Bearer tok'') = Rejected 401
   \<and> protected stub_jwt Map.empty 0
      ((db_with pending)\<lparr>users := [alice_row\<lparr>u_is_active := False\<rparr>, bob_row]\<rparr>)
      (Some ''Bearer tok'')
      (\<lambda>user. PATCH_requests
                ((db_with pending)\<lparr>users := [alice_row\<lparr>u_is_active := False\<rparr>, bob_row]\<rparr>)
                user ''r1'' (JStr ''cancelled''))
     = (Failure 401, (db_with pending)\<lparr>users := [alice_row\<lparr>u_is_active := False\<rparr>, bob_row]\<rparr>)
   \<and> authenticateToken stub_jwt Map.empty 0 (db_with pending) (Some ''Bearer tok'') = Next alice"
proof -
  have "verifyAccessToken stub_jwt Map.empty 0 ''tok'' = Some alice"
    by (simp add: verifyAccessToken_def stub_jwt_def)
  moreover have "find (\<lambda>u. u_id u = userId alice)
      (users ((db_with pending)\<lparr>users := [alice_row\<lparr>u_is_active := False\<rparr>, bob_row]\<rparr>))
      = Some (alice_row\<lparr>u_is_active := False\<rparr>)"
    by (simp add: alice_def alice_row_def)
  moreover have "authenticateToken stub_jwt Map.empty 0 (db_with pending) (Some ''Bearer tok'')
      = Next alice"
    by (simp add: authenticateToken_def bearer_tok verifyAccessToken_def stub_jwt_def
        db_with_def db_empty_def alice_def alice_row_def)
  ultimately show ?thesis
    using authenticateToken_rejects [of "Some ''Bearer tok''" stub_jwt Map.empty 0
      "(db_with pending)\<lparr>users := [alice_row\<lparr>u_is_active := False\<rparr>, bob_row]\<rparr>"
      "\<lambda>user. PATCH_requests
                ((db_with pending)\<lparr>users := [alice_row\<lparr>u_is_active := False\<rparr>, bob_row]\<rparr>)
                user ''r1'' (JStr ''cancelled'')"]
    by (simp add: bearer_tok)
qed

section \<open>Request lifecycle: transitions\<close>

lemma find_update_request_same:
  assumes "\<And>r. r_id (f r) = r_id r"
  shows "find (\<lambda>r. r_id r = i) (update_request i f rs) = map_option f (find (\<lambda>r. r_id r = i) rs)"
  using assms by (induction rs) auto

lemma find_update_request_other:
  assumes "\<And>r. r_id (f r) = r_id r" and "j \<noteq> i"
  shows "find (\<lambda>r. r_id r = j) (update_request i f rs) = find (\<lambda>r. r_id r = j) rs"
  using assms by (induction rs) auto

lemma find_append_Some: "find P xs = Some x \<Longrightarrow> find P (xs @ ys) = Some x"
  by (induction xs) (auto split: if_splits)

lemma schema_pending: "updateRequestStatusSchema (JStr ''pending'') = Some pending"
  by (simp add: updateRequestStatusSchema_def)

lemma canUpdate_not_pending: "canUpdate userRole uid request status \<Longrightarrow> status \<noteq> pending"
  by (auto simp: canUpdate_def split: if_splits)

lemma PATCH_requests_cases:
  "PATCH_requests d user i body = (Failure 400, d) \<or>
   PATCH_requests d user i body = (Failure 404, d) \<or>
   PATCH_requests d user i body = (Failure 403, d) \<or>
   (\<exists>status request. status \<noteq> pending \<and>
      find (\<lambda>r. r_id r = i) (serviceRequests d) = Some request \<and>
      PATCH_requests d user i body =
        (Success 200 (request\<lparr>r_status := status\<rparr>),
         d\<lparr>serviceRequests :=
             update_request i (\<lambda>r. r\<lparr>r_status := status\<rparr>) (serviceRequests d)\<rparr>))"
  by (auto simp: PATCH_requests_def Let_def dest: canUpdate_not_pending split: option.splits)

text \<open>
  C2. For a body whose status passes the schema and an existing request, the update is
  applied exactly when the caller is the request's provider, with role provider, and the
  target is accepted, declined or completed, or the caller is the request's customer, with
  role customer, the target is cancelled and the request is pending; the request is then
  stored with the new status. Every other combination is answered 403 and the store is
  unchanged.
\<close>

theorem PATCH_requests_matrix:
  assumes "updateRequestStatusSchema body_status = Some status"
    and "find (\<lambda>r. r_id r = i) (serviceRequests d) = Some request"
  shows "PATCH_requests d user i body_status =
     (if (role user = ''provider'' \<and> r_provider_id request = userId user \<and>
            status \<in> {accepted, declined, completed})
         \<or> (role user = ''customer'' \<and> r_customer_id request = userId user \<and>
            status = cancelled \<and> r_status request = pending)
      then (Success 200 (request\<lparr>r_status := status\<rparr>),
            d\<lparr>serviceRequests :=
                update_request i (\<lambda>r. r\<lparr>r_status := status\<rparr>) (serviceRequests d)\<rparr>)
      else (Failure 403, d))
   \<and> find (\<lambda>r. r_id r = i)
        (update_request i (\<lambda>r. r\<lparr>r_status := status\<rparr>) (serviceRequests d))
      = Some (request\<lparr>r_status := status\<rparr>)"
proof
  show "PATCH_requests d user i body_status =
     (if (role user = ''provider'' \<and> r_provider_id request = userId user \<and>
            status \<in> {accepted, declined, completed})
         \<or> (role user = ''customer'' \<and> r_customer_id request = userId user \<and>
            status = cancelled \<and> r_status request = pending)
      then (Success 200 (request\<lparr>r_status := status\<rparr>),
            d\<lparr>serviceRequests :=
                update_request i (\<lambda>r. r\<lparr>r_status := status\<rparr>) (serviceRequests d)\<rparr>)
      else (Failure 403, d))"
    using assms by (auto simp: PATCH_requests_def canUpdate_def Let_def)
  show "find (\<lambda>r. r_id r = i)
        (update_request i (\<lambda>r. r\<lparr>r_status := status\<rparr>) (serviceRequests d))
      = Some (request\<lparr>r_status := status\<rparr>)"
    using assms(2) by (simp add: find_update_request_same)
qed

text \<open>
  The provider accepts the pending request; the customer may not accept it, and the
  provider may not cancel it.
\<close>

theorem PATCH_requests_matrix_witness:
  "PATCH_requests (db_with pending) bob ''r1'' (JStr ''accepted'')
     = (Success 200 (request_row ''r1'' accepted), db_with accepted)
   \<and> PATCH_requests (db_with pending) alice ''r1'' (JStr ''accepted'')
     = (Failure 403, db_with pending)
   \<and> PATCH_requests (db_with pending) bob ''r1'' (JStr ''cancelled'')
     = (Failure 403, db_with pending)"
proof -
  have f: "find (\<lambda>r. r_id r = ''r1'') (serviceRequests (db_with pending))
      = Some (request_row ''r1'' pending)"
    by (simp add: db_with_def request_row_def)
  have a: "updateRequestStatusSchema (JStr ''accepted'') = Some accepted"
    by (simp add: updateRequestStatusSchema_def)
  have c: "updateRequestStatusSchema (JStr ''cancelled'') = Some cancelled"
    by (simp add: updateRequestStatusSchema_def)
  show ?thesis
    using PATCH_requests_matrix [OF a f, of bob] PATCH_requests_matrix [OF a f, of alice]
      PATCH_requests_matrix [OF c f, of bob]
    by (simp add: db_with_def request_row_def alice_def bob_def)
qed

section \<open>Request lifecycle: no way back to pending\<close>

lemma create_request_requests:
  "serviceRequests (snd (create_request p g d user body)) = serviceRequests d \<or>
   (\<exists>x. serviceRequests (snd (create_request p g d user body)) = serviceRequests d @ [x])"
  by (auto simp: create_request_def Let_def split: option.splits)

lemma POST_requests_requests:
  "serviceRequests (snd (POST_requests p g d user body)) = serviceRequests d \<or>
   (\<exists>x. serviceRequests (snd (POST_requests p g d user body)) = serviceRequests d @ [x])"
  using create_request_requests [of p g d user body]
  by (auto simp: POST_requests_def requireRole_def split: gate.splits)

lemma submit_feedback_requests:
  "serviceRequests (snd (submit_feedback g d user body)) = serviceRequests d"
  by (auto simp: submit_feedback_def Let_def split: option.splits)

lemma POST_feedback_requests:
  "serviceRequests (snd (POST_feedback g d user body)) = serviceRequests d"
  by (auto simp: POST_feedback_def requireRole_def submit_feedback_requests split: gate.splits)

lemma api_step_keeps_left_pending:
  assumes "find (\<lambda>r. r_id r = j) (serviceRequests d) = Some r" and "r_status r \<noteq> pending"
  shows "\<exists>r'. find (\<lambda>r. r_id r = j) (serviceRequests (api_step p d c)) = Some r' \<and>
              r_status r' \<noteq> pending"
proof (cases c)
  case (CreateRequest g user body)
  with assms POST_requests_requests [of p g d user body] show ?thesis
    by (auto simp: find_append_Some)
next
  case (PatchRequest user i body)
  show ?thesis
  proof (cases "j = i")
    case True
    with assms PatchRequest PATCH_requests_cases [of d user i body] show ?thesis
      by (auto simp: find_update_request_same)
  next
    case False
    with assms PatchRequest PATCH_requests_cases [of d user i body] show ?thesis
      by (auto simp: find_update_request_other)
  qed
next
  case (SubmitFeedback g user body)
  with assms show ?thesis by (simp add: POST_feedback_requests)
qed

lemma api_run_keeps_left_pending:
  "find (\<lambda>r. r_id r = j) (serviceRequests d) = Some r \<Longrightarrow> r_status r \<noteq> pending \<Longrightarrow>
   \<exists>r'. find (\<lambda>r. r_id r = j) (serviceRequests (api_run p d calls)) = Some r' \<and>
        r_status r' \<noteq> pending"
  unfolding api_run_def
proof (induction calls arbitrary: d r)
  case Nil
  then show ?case by simp
next
  case (Cons c calls)
  from api_step_keeps_left_pending [OF Cons.prems, of p c]
  obtain r1 where "find (\<lambda>r. r_id r = j) (serviceRequests (api_step p d c)) = Some r1"
    and "r_status r1 \<noteq> pending" by blast
  from Cons.IH [OF this] show ?case by simp
qed

text \<open>
  C9. A PATCH with target pending on an existing request is answered 403 for every
  caller. Whatever the body, a PATCH that succeeds stores a status other than pending. So
  a request that has left pending is, after any sequence of calls that write requests
  (create, patch) or feedback, still there and still not pending.
\<close>

theorem PATCH_requests_never_pending:
  "(find (\<lambda>r. r_id r = i) (serviceRequests d) \<noteq> None \<longrightarrow>
      PATCH_requests d user i (JStr ''pending'') = (Failure 403, d))
   \<and> (\<forall>n r' d'. PATCH_requests d user i body = (Success n r', d') \<longrightarrow>
         r_status r' \<noteq> pending \<and>
         find (\<lambda>r. r_id r = i) (serviceRequests d') = Some r')
   \<and> (\<forall>r. find (\<lambda>r. r_id r = j) (serviceRequests d) = Some r \<and> r_status r \<noteq> pending \<longrightarrow>
         (\<exists>r'. find (\<lambda>r. r_id r = j) (serviceRequests (api_run p d calls)) = Some r' \<and>
               r_status r' \<noteq> pending))"
proof (intro conjI)
  show "find (\<lambda>r. r_id r = i) (serviceRequests d) \<noteq> None \<longrightarrow>
      PATCH_requests d user i (JStr ''pending'') = (Failure 403, d)"
    by (auto simp: PATCH_requests_def Let_def schema_pending dest: canUpdate_not_pending)
  show "\<forall>n r' d'. PATCH_requests d user i body = (Success n r', d') \<longrightarrow>
         r_status r' \<noteq> pending \<and>
         find (\<lambda>r. r_id r = i) (serviceRequests d') = Some r'"
    using PATCH_requests_cases [of d user i body]
    by (auto simp: find_update_request_same)
  show "\<forall>r. find (\<lambda>r. r_id r = j) (serviceRequests d) = Some r \<and> r_status r \<noteq> pending \<longrightarrow>
         (\<exists>r'. find (\<lambda>r. r_id r = j) (serviceRequests (api_run p d calls)) = Some r' \<and>
               r_status r' \<noteq> pending)"
    using api_run_keeps_left_pending by blast
qed

text \<open>
  On the accepted request: the provider's PATCH to pending is refused, the PATCH to
  completed stores completed, and after both calls the request is not pending.
\<close>

theorem PATCH_requests_never_pending_witness:
  "PATCH_requests (db_with accepted) bob ''r1'' (JStr ''pending'') = (Failure 403, db_with accepted)
   \<and> PATCH_requests (db_with accepted) bob ''r1'' (JStr ''completed'')
       = (Success 200 (request_row ''r1'' completed), db_with completed)
   \<and> find (\<lambda>r. r_id r = ''r1'') (serviceRequests (db_with completed))
       = Some (request_row ''r1'' completed)
   \<and> r_status (request_row ''r1'' completed) \<noteq> pending
   \<and> (\<exists>r'. find (\<lambda>r. r_id r = ''r1'')
             (serviceRequests (api_run example_Date (db_with accepted)
                [PatchRequest bob ''r1'' (JStr ''pending''),
                 PatchRequest bob ''r1'' (JStr ''completed'')])) = Some r'
           \<and> r_status r' \<noteq> pending)"
proof -
  have f: "find (\<lambda>r. r_id r = ''r1'') (serviceRequests (db_with accepted))
      = Some (request_row ''r1'' accepted)"
    by (simp add: db_with_def request_row_def)
  have s: "r_status (request_row ''r1'' accepted) \<noteq> pending"
    by (simp add: request_row_def)
  have p: "PATCH_requests (db_with accepted) bob ''r1'' (JStr ''completed'')
       = (Success 200 (request_row ''r1'' completed), db_with completed)"
    by (simp add: PATCH_requests_def updateRequestStatusSchema_def canUpdate_def Let_def
        db_with_def db_empty_def request_row_def bob_def)
  show ?thesis
    using PATCH_requests_never_pending [of "''r1''" "db_with accepted" bob "JStr ''completed''"
        "''r1''" example_Date "[PatchRequest bob ''r1'' (JStr ''pending''),
                 PatchRequest bob ''r1'' (JStr ''completed'')]"] f s p
    by simp
qed

section \<open>Request lifecycle: creation\<close>

lemma find_None_set: "find P xs = None \<longleftrightarrow> \<not> (\<exists>x\<in>set xs. P x)"
  by (induction xs) auto

lemma find_Some_set: "find P xs = Some x \<Longrightarrow> x \<in> set xs \<and> P x"
  by (induction xs) (auto split: if_splits)

lemma tomorrow_valid:
  "createRequestSchema (request_body (JStr ''tomorrow'')) =
     Some \<lparr> service_id = ''s1'', message = None, requested_date = Some ''tomorrow'',
            estimated_duration = None \<rparr>"
  by (simp add: createRequestSchema_def request_body_def)

text \<open>
  C3, as stated, fails: the schema takes any string as \<^verbatim>\<open>requested_date\<close>, and the handler
  hands \<^verbatim>\<open>new Date(requested_date)\<close> to \<^verbatim>\<open>create\<close>. For the customer, the active service
  and no earlier request, the body with the date \<^verbatim>\<open>tomorrow\<close> passes the schema and both
  checks, and the answer is 500 with no row written, not a new request.
\<close>

theorem unparseable_date_not_created:
  "createRequestSchema (request_body (JStr ''tomorrow'')) \<noteq> None
   \<and> find (\<lambda>s. s_id s = ''s1'' \<and> s_is_active s) (services db_empty) = Some plumbing
   \<and> serviceRequests db_empty = []
   \<and> example_Date ''tomorrow'' = None
   \<and> POST_requests example_Date (gen ''r1'' 7) db_empty alice (request_body (JStr ''tomorrow''))
       = (Failure 500, db_empty)"
  by (simp add: POST_requests_def requireRole_def create_request_def tomorrow_valid
      requested_date_value_def example_Date_def db_empty_def plumbing_def alice_def Let_def)




section \<open>Feedback: submission\<close>



text \<open>What a submission does to the store, whoever calls and whatever the body.\<close>

lemma submit_feedback_cases:
  "snd (submit_feedback g d user body) = d \<or>
   (\<exists>fb r v. submitFeedbackSchema body = Some v \<and>
      f_service_request_id fb = service_request_id v \<and>
      feedbacks (snd (submit_feedback g d user body)) = feedbacks d @ [fb] \<and>
      (\<forall>f\<in>set (feedbacks d). f_service_request_id f \<noteq> f_service_request_id fb) \<and>
      1 \<le> f_rating fb \<and> f_rating fb \<le> 5 \<and>
      r \<in> set (serviceRequests d) \<and> r_id r = f_service_request_id fb \<and>
      r_customer_id r = userId user \<and> r_status r = completed)"
proof (cases "submitFeedbackSchema body")
  case None
  then show ?thesis by (simp add: submit_feedback_def)
next
  case (Some v)
  then have range: "1 \<le> rating v \<and> rating v \<le> 5"
    by (cases "fb_rating body")
       (auto simp: submitFeedbackSchema_def split: option.splits if_splits)
  show ?thesis
  proof (cases "find (\<lambda>r. r_id r = service_request_id v \<and> r_customer_id r = userId user \<and>
                           r_status r = completed) (serviceRequests d)")
    case None
    with Some show ?thesis by (simp add: submit_feedback_def)
  next
    case req: (Some r)
    show ?thesis
    proof (cases "find (\<lambda>f. f_service_request_id f = service_request_id v) (feedbacks d)")
      case (Some existing)
      with \<open>submitFeedbackSchema body = Some v\<close> req show ?thesis
        by (simp add: submit_feedback_def)
    next
      case None
      then have fresh: "\<forall>f\<in>set (feedbacks d). f_service_request_id f \<noteq> service_request_id v"
        by (simp add: find_None_set)
      from find_Some_set [OF req] have r: "r \<in> set (serviceRequests d)"
        "r_id r = service_request_id v" "r_customer_id r = userId user" "r_status r = completed"
        by auto
      have "\<exists>fb. feedbacks (snd (submit_feedback g d user body)) = feedbacks d @ [fb] \<and>
          f_service_request_id fb = service_request_id v \<and> f_rating fb = rating v"
        using \<open>submitFeedbackSchema body = Some v\<close> req None
        by (auto simp: submit_feedback_def Let_def split: option.splits)
      with fresh range r \<open>submitFeedbackSchema body = Some v\<close> show ?thesis
        by (intro disjI2) metis
    qed
  qed
qed


lemma POST_feedback_cases:
  "snd (POST_feedback g d user body) = d \<or>
   (\<exists>fb r v. submitFeedbackSchema body = Some v \<and>
      f_service_request_id fb = service_request_id v \<and>
      feedbacks (snd (POST_feedback g d user body)) = feedbacks d @ [fb] \<and>
      (\<forall>f\<in>set (feedbacks d). f_service_request_id f \<noteq> f_service_request_id fb) \<and>
      1 \<le> f_rating fb \<and> f_rating fb \<le> 5 \<and>
      r \<in> set (serviceRequests d) \<and> r_id r = f_service_request_id fb \<and>
      r_customer_id r = userId user \<and> r_status r = completed)"
  using submit_feedback_cases [of g d user body]
  by (auto simp: POST_feedback_def requireRole_def)

lemma PATCH_requests_feedbacks: "feedbacks (snd (PATCH_requests d user i body)) = feedbacks d"
  by (auto simp: PATCH_requests_def Let_def split: option.splits)

lemma POST_requests_feedbacks: "feedbacks (snd (POST_requests p g d user body)) = feedbacks d"
  by (auto simp: POST_requests_def requireRole_def create_request_def Let_def split: option.splits)

lemma api_step_feedbacks:
  "feedbacks (api_step p d c) = feedbacks d \<or>
   (\<exists>fb. feedbacks (api_step p d c) = feedbacks d @ [fb] \<and>
      (\<forall>f\<in>set (feedbacks d). f_service_request_id f \<noteq> f_service_request_id fb) \<and>
      1 \<le> f_rating fb \<and> f_rating fb \<le> 5)"
proof (cases c)
  case (CreateRequest g user body)
  then show ?thesis by (simp add: POST_requests_feedbacks)
next
  case (PatchRequest user i body)
  then show ?thesis by (simp add: PATCH_requests_feedbacks)
next
  case (SubmitFeedback g user body)
  with POST_feedback_cases [of g d user body] show ?thesis by auto
qed

lemma api_step_one_feedback:
  "one_feedback_per_request (feedbacks d) \<Longrightarrow> one_feedback_per_request (feedbacks (api_step p d c))"
proof -
  assume inv: "one_feedback_per_request (feedbacks d)"
  from api_step_feedbacks [of p d c] show ?thesis
  proof (elim disjE exE conjE)
    assume "feedbacks (api_step p d c) = feedbacks d"
    with inv show ?thesis by simp
  next
    fix fb
    assume new: "feedbacks (api_step p d c) = feedbacks d @ [fb]"
      and fresh: "\<forall>f\<in>set (feedbacks d). f_service_request_id f \<noteq> f_service_request_id fb"
    from fresh have "f_service_request_id fb \<notin> f_service_request_id ` set (feedbacks d)"
      by (metis imageE)
    with inv new show ?thesis by (simp add: one_feedback_per_request_def)
  qed
qed

lemma api_run_one_feedback:
  "one_feedback_per_request (feedbacks d) \<Longrightarrow> one_feedback_per_request (feedbacks (api_run p d calls))"
  unfolding api_run_def
  by (induction calls arbitrary: d) (auto simp: api_step_one_feedback)

lemma api_step_rating_range:
  "\<forall>f\<in>set (feedbacks d). 1 \<le> f_rating f \<and> f_rating f \<le> 5 \<Longrightarrow>
   \<forall>f\<in>set (feedbacks (api_step p d c)). 1 \<le> f_rating f \<and> f_rating f \<le> 5"
  using api_step_feedbacks [of p d c] by auto

lemma api_run_rating_range:
  "\<forall>f\<in>set (feedbacks d). 1 \<le> f_rating f \<and> f_rating f \<le> 5 \<Longrightarrow>
   \<forall>f\<in>set (feedbacks (api_run p d calls)). 1 \<le> f_rating f \<and> f_rating f \<le> 5"
  unfolding api_run_def
proof (induction calls arbitrary: d)
  case Nil
  then show ?case by simp
next
  case (Cons c calls)
  from Cons.IH [OF api_step_rating_range [OF Cons.prems, of p c]] show ?case by simp
qed

text \<open>
  C4. For a customer and a body that passes the schema: without a request of that id that
  is the caller's and completed, the answer is 404, the same whether the request is
  missing, another customer's or not completed; with such a request and a Feedback row for
  it, 409; in both cases the store is unchanged. A row is written only when both checks
  pass, and it is one row for that request. Hence a store with at most one Feedback per
  request keeps that property over any run of calls.
\<close>

theorem POST_feedback_outcome:
  assumes "role user = ''customer''"
    and "submitFeedbackSchema body = Some v"
  shows "(\<not> (\<exists>r\<in>set (serviceRequests d). r_id r = service_request_id v \<and>
               r_customer_id r = userId user \<and> r_status r = completed) \<longrightarrow>
            POST_feedback g d user body = (Failure 404, d))
     \<and> ((\<exists>r\<in>set (serviceRequests d). r_id r = service_request_id v \<and>
               r_customer_id r = userId user \<and> r_status r = completed) \<and>
         (\<exists>f\<in>set (feedbacks d). f_service_request_id f = service_request_id v) \<longrightarrow>
            POST_feedback g d user body = (Failure 409, d))
     \<and> (feedbacks (snd (POST_feedback g d user body)) \<noteq> feedbacks d \<longrightarrow>
           (\<exists>r\<in>set (serviceRequests d). r_id r = service_request_id v \<and>
               r_customer_id r = userId user \<and> r_status r = completed) \<and>
           \<not> (\<exists>f\<in>set (feedbacks d). f_service_request_id f = service_request_id v) \<and>
           (\<exists>fb. feedbacks (snd (POST_feedback g d user body)) = feedbacks d @ [fb] \<and>
                 f_service_request_id fb = service_request_id v))
     \<and> (one_feedback_per_request (feedbacks d) \<longrightarrow>
           one_feedback_per_request (feedbacks (api_run p d calls)))"
proof (intro conjI impI)
  assume "\<not> (\<exists>r\<in>set (serviceRequests d). r_id r = service_request_id v \<and>
               r_customer_id r = userId user \<and> r_status r = completed)"
  then have "find (\<lambda>r. r_id r = service_request_id v \<and> r_customer_id r = userId user \<and>
                       r_status r = completed) (serviceRequests d) = None"
    by (simp add: find_None_set)
  with assms show "POST_feedback g d user body = (Failure 404, d)"
    by (simp add: POST_feedback_def requireRole_def submit_feedback_def)
next
  assume a: "(\<exists>r\<in>set (serviceRequests d). r_id r = service_request_id v \<and>
               r_customer_id r = userId user \<and> r_status r = completed) \<and>
         (\<exists>f\<in>set (feedbacks d). f_service_request_id f = service_request_id v)"
  then obtain r where "find (\<lambda>r. r_id r = service_request_id v \<and> r_customer_id r = userId user \<and>
                       r_status r = completed) (serviceRequests d) = Some r"
    using find_None_set [of "\<lambda>r. r_id r = service_request_id v \<and> r_customer_id r = userId user \<and>
                       r_status r = completed" "serviceRequests d"] by auto
  moreover from a obtain f where
    "find (\<lambda>f. f_service_request_id f = service_request_id v) (feedbacks d) = Some f"
    using find_None_set [of "\<lambda>f. f_service_request_id f = service_request_id v" "feedbacks d"]
    by auto
  ultimately show "POST_feedback g d user body = (Failure 409, d)"
    using assms by (simp add: POST_feedback_def requireRole_def submit_feedback_def)
next
  assume w: "feedbacks (snd (POST_feedback g d user body)) \<noteq> feedbacks d"
  with POST_feedback_cases [of g d user body] assms(2)
  obtain fb r where fb: "f_service_request_id fb = service_request_id v"
      "feedbacks (snd (POST_feedback g d user body)) = feedbacks d @ [fb]"
      "\<forall>f\<in>set (feedbacks d). f_service_request_id f \<noteq> f_service_request_id fb"
    and r: "r \<in> set (serviceRequests d)" "r_id r = f_service_request_id fb"
      "r_customer_id r = userId user" "r_status r = completed"
    by auto
  from r fb(1) show "\<exists>r\<in>set (serviceRequests d). r_id r = service_request_id v \<and>
               r_customer_id r = userId user \<and> r_status r = completed"
    by auto
  from fb show "\<not> (\<exists>f\<in>set (feedbacks d). f_service_request_id f = service_request_id v)"
    by auto
  from fb show "\<exists>fb. feedbacks (snd (POST_feedback g d user body)) = feedbacks d @ [fb] \<and>
                 f_service_request_id fb = service_request_id v"
    by auto
next
  assume "one_feedback_per_request (feedbacks d)"
  then show "one_feedback_per_request (feedbacks (api_run p d calls))"
    by (rule api_run_one_feedback)
qed

lemma rating_body_valid:
  "submitFeedbackSchema (rating_body (JNum 4)) =
     Some \<lparr> service_request_id = ''r1'', rating = 4, comment = None \<rparr>"
  by (simp add: submitFeedbackSchema_def rating_body_def)

lemma first_rating:
  "POST_feedback (gen ''f1'' 9) (db_with completed) alice (rating_body (JNum 4))
     = (Success 201 (feedback_row ''f1'' ''r1'' 4 True 9), db_rated)"
proof -
  have "binary64 4 = Some 4" "binary64 40 = Some 40" by code_simp+
  moreover have "\<lfloor>81 / 2 :: rat\<rfloor> = 40" by linarith
  ultimately show ?thesis
    by (simp add: POST_feedback_def requireRole_def submit_feedback_def rating_body_valid
        db_with_def db_empty_def request_row_def alice_def alice_row_def bob_row_def gen_def
        feedback_row_def db_rated_def js_div_def js_add_def js_mul_def sum_ratings_def
        Math_round_def Let_def)
qed

text \<open>
  The scenario: feedback on the accepted request is answered 404; on the completed
  request it is stored; a second submission for the same request is answered 409, and
  after both submissions the request has one Feedback row.
\<close>

theorem POST_feedback_outcome_witness:
  "POST_feedback (gen ''f1'' 9) (db_with accepted) alice (rating_body (JNum 4))
     = (Failure 404, db_with accepted)
   \<and> POST_feedback (gen ''f2'' 10) db_rated alice (rating_body (JNum 4)) = (Failure 409, db_rated)
   \<and> (\<exists>fb. feedbacks (snd (POST_feedback (gen ''f1'' 9) (db_with completed) alice
                              (rating_body (JNum 4)))) = [fb]
           \<and> f_service_request_id fb = ''r1'')
   \<and> one_feedback_per_request (feedbacks (api_run example_Date (db_with completed)
         [SubmitFeedback (gen ''f1'' 9) alice (rating_body (JNum 4)),
          SubmitFeedback (gen ''f2'' 10) alice (rating_body (JNum 4))]))"
proof -
  have r: "role alice = ''customer''" by (simp add: alice_def)
  note defs = db_with_def db_empty_def db_rated_def request_row_def feedback_row_def alice_def
  note outcome = POST_feedback_outcome [OF r rating_body_valid]
  have "POST_feedback (gen ''f1'' 9) (db_with accepted) alice (rating_body (JNum 4))
      = (Failure 404, db_with accepted)"
    using outcome [of "db_with accepted" "gen ''f1'' 9"] by (simp add: defs)
  moreover have "POST_feedback (gen ''f2'' 10) db_rated alice (rating_body (JNum 4))
      = (Failure 409, db_rated)"
    using outcome [of db_rated "gen ''f2'' 10"] by (simp add: defs)
  moreover have "\<exists>fb. feedbacks (snd (POST_feedback (gen ''f1'' 9) (db_with completed) alice
                              (rating_body (JNum 4)))) = [fb]
           \<and> f_service_request_id fb = ''r1''"
    using outcome [of "db_with completed" "gen ''f1'' 9"] first_rating
    by (simp add: defs)
  moreover have "one_feedback_per_request (feedbacks (api_run example_Date (db_with completed)
         [SubmitFeedback (gen ''f1'' 9) alice (rating_body (JNum 4)),
          SubmitFeedback (gen ''f2'' 10) alice (rating_body (JNum 4))]))"
    using outcome [of "db_with completed" "gen ''f1'' 9" example_Date
        "[SubmitFeedback (gen ''f1'' 9) alice (rating_body (JNum 4)),
          SubmitFeedback (gen ''f2'' 10) alice (rating_body (JNum 4))]"]
    by (simp add: defs one_feedback_per_request_def)
  ultimately show ?thesis by blast
qed

section \<open>Feedback: the recomputed rating\<close>

lemma one_point_nine_nearest: "binary64 (19 / 10) = Some one_point_nine"
  unfolding one_point_nine_def by code_simp









section \<open>Feedback: validated ratings\<close>

lemma z_number_1_5_Some: "z_number_1_5 j = Some x \<longleftrightarrow> j = JNum x \<and> 1 \<le> x \<and> x \<le> 5"
  by (cases j) auto

lemma half_rating:
  "POST_feedback (gen ''f1'' 9) (db_with completed) alice (rating_body (JNum (5/2)))
     = (Success 201 (feedback_row ''f1'' ''r1'' (5/2) True 9),
       (db_with completed)\<lparr>users := [alice_row,
                                       bob_row\<lparr>u_rating := round1 (arithmetic_mean [5/2])\<rparr>],
       feedbacks := [feedback_row ''f1'' ''r1'' (5/2) True 9]\<rparr>)"
  by (simp add: POST_feedback_def requireRole_def submit_feedback_def submitFeedbackSchema_def
      rating_body_def db_with_def db_empty_def request_row_def alice_def alice_row_def
      bob_row_def gen_def feedback_row_def sum_ratings_def round1_def arithmetic_mean_def
      Let_def)

text \<open>
  C8, as stated, fails: the schema asks for a number from 1 to 5, not for an integer. The
  rating 2.5 passes it, the submission is answered 201 and the row is stored with 2.5.
\<close>

theorem non_integer_rating_accepted:
  "of_int \<lfloor>5 / 2 :: rat\<rfloor> \<noteq> (5 / 2 :: rat)
   \<and> submitFeedbackSchema (rating_body (JNum (5 / 2)))
       = Some \<lparr> service_request_id = ''r1'', rating = 5 / 2, comment = None \<rparr>
   \<and> status_of (fst (POST_feedback (gen ''f1'' 9) (db_with completed) alice
                        (rating_body (JNum (5 / 2))))) = 201
   \<and> map f_rating (feedbacks (snd (POST_feedback (gen ''f1'' 9) (db_with completed) alice
                        (rating_body (JNum (5 / 2)))))) = [5 / 2]"
proof -
  have "of_int \<lfloor>5 / 2 :: rat\<rfloor> \<noteq> (5 / 2 :: rat)"
    using floor_divide_of_int_eq [of 5 2, where ?'a = rat] by simp
  moreover have "submitFeedbackSchema (rating_body (JNum (5 / 2)))
       = Some \<lparr> service_request_id = ''r1'', rating = 5 / 2, comment = None \<rparr>"
    by (simp add: submitFeedbackSchema_def rating_body_def)
  ultimately show ?thesis
    by (simp add: half_rating feedback_row_def del: floor_divide_of_int_eq)
qed

text \<open>
  C8, amended. A submission whose rating is not a number from 1 to 5 writes nothing, and
  for a customer it is answered 400. So over any run of calls every stored Feedback row
  keeps a rating between 1 and 5 (not necessarily an integer).
\<close>

theorem rating_validated:
  "(\<not> (\<exists>x. fb_rating body = JNum x \<and> 1 \<le> x \<and> x \<le> 5) \<longrightarrow>
      snd (POST_feedback g d user body) = d \<and>
      (role user = ''customer'' \<longrightarrow> POST_feedback g d user body = (Failure 400, d)))
   \<and> ((\<forall>f\<in>set (feedbacks d). 1 \<le> f_rating f \<and> f_rating f \<le> 5) \<longrightarrow>
       (\<forall>f\<in>set (feedbacks (api_run p d calls)). 1 \<le> f_rating f \<and> f_rating f \<le> 5))"
proof (intro conjI impI)
  assume bad: "\<not> (\<exists>x. fb_rating body = JNum x \<and> 1 \<le> x \<and> x \<le> 5)"
  then have "z_number_1_5 (fb_rating body) = None"
    using z_number_1_5_Some [of "fb_rating body"] by (cases "z_number_1_5 (fb_rating body)") auto
  then have none: "submitFeedbackSchema body = None"
    by (simp add: submitFeedbackSchema_def split: option.splits)
  then show "snd (POST_feedback g d user body) = d"
    by (simp add: POST_feedback_def requireRole_def submit_feedback_def)
  assume "role user = ''customer''"
  with none show "POST_feedback g d user body = (Failure 400, d)"
    by (simp add: POST_feedback_def requireRole_def submit_feedback_def)
next
  assume "\<forall>f\<in>set (feedbacks d). 1 \<le> f_rating f \<and> f_rating f \<le> 5"
  then show "\<forall>f\<in>set (feedbacks (api_run p d calls)). 1 \<le> f_rating f \<and> f_rating f \<le> 5"
    by (rule api_run_rating_range)
qed

text \<open>The rating 6 and the string "5" are refused; the rating 2.5 is stored, within range.\<close>

theorem rating_validated_witness:
  "POST_feedback (gen ''f1'' 9) (db_with completed) alice (rating_body (JNum 6))
     = (Failure 400, db_with completed)
   \<and> POST_feedback (gen ''f1'' 9) (db_with completed) alice (rating_body (JStr ''5''))
     = (Failure 400, db_with completed)
   \<and> list_all (\<lambda>f. 1 \<le> f_rating f \<and> f_rating f \<le> 5)
        (feedbacks (api_run example_Date db_history
          [SubmitFeedback (gen ''f1'' 9) alice (rating_body (JNum (5 / 2)))]))"
proof -
  have "POST_feedback (gen ''f1'' 9) (db_with completed) alice (rating_body (JNum 6))
     = (Failure 400, db_with completed)"
    using rating_validated [where body = "rating_body (JNum 6)" and g = "gen ''f1'' 9"
        and d = "db_with completed" and user = alice]
    by (simp add: rating_body_def alice_def)
  moreover have "POST_feedback (gen ''f1'' 9) (db_with completed) alice (rating_body (JStr ''5''))
     = (Failure 400, db_with completed)"
    using rating_validated [where body = "rating_body (JStr ''5'')" and g = "gen ''f1'' 9"
        and d = "db_with completed" and user = alice]
    by (simp add: rating_body_def alice_def)
  moreover have "\<forall>f\<in>set (feedbacks db_history). 1 \<le> f_rating f \<and> f_rating f \<le> 5"
    by (simp add: db_history_def feedback_row_def one_point_nine_def)
  then have "list_all (\<lambda>f. 1 \<le> f_rating f \<and> f_rating f \<le> 5)
        (feedbacks (api_run example_Date db_history
          [SubmitFeedback (gen ''f1'' 9) alice (rating_body (JNum (5 / 2)))]))"
    using rating_validated [where body = "rating_body (JNum 6)" and g = "gen ''f1'' 9"
        and d = db_history and user = alice and p = example_Date
        and calls = "[SubmitFeedback (gen ''f1'' 9) alice (rating_body (JNum (5 / 2)))]"]
    unfolding list_all_iff by blast
  ultimately show ?thesis by blast
qed

section \<open>Feedback: the provider's listing\<close>







lemma round1_0: "js_div (Math_round (js_mul (Some 0) 10)) 10 = Some 0"
proof -
  have "\<lfloor>1 / 2 :: rat\<rfloor> = 0" by linarith
  then show ?thesis by (simp add: js_mul_def js_div_def Math_round_def binary64_def)
qed


lemma bob_is_provider:
  "find (\<lambda>u. u_id u = ''p1'' \<and> u_role u = ''provider'') (users db_history) = Some bob_row"
  by (simp add: db_history_def db_with_def db_empty_def alice_row_def bob_row_def)



text \<open>
  C10. For an existing provider without public Feedback rows the answer is 200 with the
  empty list, the average 0 and the count 0.
\<close>

theorem GET_feedback_provider_empty:
  assumes "find (\<lambda>u. u_id u = i \<and> u_role u = ''provider'') (users d) = Some provider"
    and "\<forall>f\<in>set (feedbacks d). \<not> (f_provider_id f = i \<and> f_is_public f)"
  shows "GET_feedback_provider d i
     = Success 200 \<lparr> feedback = [], average_rating = Some 0, total_reviews = 0 \<rparr>"
proof -
  from assms(2) have "filter (\<lambda>f. f_provider_id f = i \<and> f_is_public f) (feedbacks d) = []"
    by (simp add: filter_empty_conv)
  with assms(1) show ?thesis
    by (simp add: GET_feedback_provider_def order_by_created_at_desc_def round1_0)
qed

text \<open>A provider whose only rating is not public.\<close>

theorem GET_feedback_provider_empty_witness:
  "GET_feedback_provider (db_history\<lparr>feedbacks := [feedback_row ''f0'' ''r0'' 5 False 1]\<rparr>) ''p1''
     = Success 200 \<lparr> feedback = [], average_rating = Some 0, total_reviews = 0 \<rparr>"
proof -
  have "find (\<lambda>u. u_id u = ''p1'' \<and> u_role u = ''provider'')
      (users (db_history\<lparr>feedbacks := [feedback_row ''f0'' ''r0'' 5 False 1]\<rparr>)) = Some bob_row"
    using bob_is_provider by simp
  from GET_feedback_provider_empty [OF this] show ?thesis
    by (simp add: feedback_row_def)
qed

end
